theory Spec2Isabelle
  imports Main "HOL-Library.AList"
begin

section \<open>The request dispatcher of http-kit (src/main.js)\<close>

text \<open>
  The repository is one file, \<^verbatim>\<open>src/main.js\<close>, exporting \<^verbatim>\<open>createApiServer\<close> and
  \<^verbatim>\<open>send\<close>. \<^verbatim>\<open>createApiServer\<close> builds a route table and one validator per route and
  returns the per-request handler. The handler is modelled by explicit state passing: the
  state holds the request and response objects the handler mutates, the local variables of
  the body reader, what was logged, and a record of which stages were entered.

  The libraries the file requires (url, cookie, jsonwebtoken, ajv, JSON) are not part of the
  repository; they are taken as parameters, collected in the record \<open>runtime\<close>.
\<close>

subsection \<open>Values\<close>

datatype json =
    JNull
  | JBool bool
  | JNum int
  | JStr string
  | JArr "json list"
  | JObj "(string \<times> json) list"

text \<open>The object literal \<^verbatim>\<open>{ failure: msg }\<close> passed to \<^verbatim>\<open>send\<close>.\<close>

definition failure :: "string \<Rightarrow> json" where
  "failure msg = JObj [(''failure'', JStr msg)]"

text \<open>A value given to \<^verbatim>\<open>response.setHeader\<close>: a string, or a number (the Content-Length).\<close>

datatype hvalue = HStr string | HNum nat

text \<open>What the code can throw, or be handed by the stream.\<close>

datatype error =
    TypeError string
  | ERR_HTTP_HEADERS_SENT
  | SyntaxError
  | Error string

subsection \<open>The request, the response and the body stream\<close>

text \<open>
  \<open>method\<close>, \<open>url\<close> and \<open>headers\<close> come from the HTTP parser (header names in lower case);
  \<open>pathname\<close>, \<open>query\<close>, \<open>session\<close> and \<open>body\<close> are the properties the handler assigns, absent
  (\<open>None\<close>, JavaScript's undefined) until then; \<open>destroyed\<close> is set by \<^verbatim>\<open>request.destroy\<close>.
\<close>

record request =
  "method" :: string
  url :: string
  headers :: "(string \<times> string) list"
  pathname :: "string option"
  query :: "json option"
  session :: "json option"
  body :: "json option"
  destroyed :: bool

text \<open>
  The response object. \<open>wire\<close> lists the responses that went out: status line, header block
  and body of each \<^verbatim>\<open>end\<close> that wrote. \<open>headersSent\<close> and \<open>writableEnded\<close> are Node's flags.
\<close>

record response =
  statusCode :: nat
  outHeaders :: "(string \<times> hvalue) list"
  headersSent :: bool
  writableEnded :: bool
  wire :: "(nat \<times> (string \<times> hvalue) list \<times> string) list"

definition new_response :: response where
  "new_response =
     \<lparr> statusCode = 200, outHeaders = [], headersSent = False, writableEnded = False, wire = [] \<rparr>"

text \<open>
  The body as the request stream delivers it: the \<^verbatim>\<open>data\<close> events in order, then either
  \<^verbatim>\<open>end\<close> or \<^verbatim>\<open>error\<close>.
\<close>

datatype ending = End | Errored string

record stream =
  chunks :: "string list"
  ending :: ending

subsection \<open>Routes, services and the external libraries\<close>

record services =
  jwtSecret :: string

text \<open>
  A \<^verbatim>\<open>prepare\<close> or \<^verbatim>\<open>respond\<close> delegate is code of the application. It is modelled by what
  it does with its arguments: a script of calls of the exported \<^verbatim>\<open>send\<close>, assignments to the
  request, and a possible throw, computed from the request and the services.
\<close>

datatype action =
    Send nat json
  | Mutate "request \<Rightarrow> request"
  | Raise string

type_synonym delegate = "request \<Rightarrow> services \<Rightarrow> action list"

record route =
  respond :: "delegate option"
  authenticate :: bool
  headers :: "(string \<times> string) list option"
  json :: bool
  accept :: "bool option"
  limit :: "nat option"
  validate :: "json option"
  prepare :: "delegate option"

text \<open>The object \<^verbatim>\<open>{ query, headers, body }\<close> handed to the validator.\<close>

record data =
  data_query :: "json option"
  data_headers :: "(string \<times> string) list"
  data_body :: "json option"

text \<open>
  The libraries: \<^verbatim>\<open>url.parse(u, true)\<close> gives pathname and query; \<^verbatim>\<open>cookie.parse\<close> gives
  the cookies; \<^verbatim>\<open>jwt.verify\<close> returns the claims or throws (\<open>None\<close>); \<^verbatim>\<open>JSON.parse\<close>
  returns a value or throws a SyntaxError (\<open>None\<close>); \<^verbatim>\<open>JSON.stringify\<close>; and
  \<^verbatim>\<open>ajv.compile({ type: 'object', properties: v })\<close> gives a predicate.
\<close>

record runtime =
  url_parse :: "string \<Rightarrow> string \<times> json"
  cookie_parse :: "string \<Rightarrow> (string \<times> string) list"
  jwt_verify :: "string \<Rightarrow> string \<Rightarrow> json option"
  JSON_parse :: "string \<Rightarrow> json option"
  JSON_stringify :: "json \<Rightarrow> string"
  ajv_compile :: "json option \<Rightarrow> data \<Rightarrow> bool"

subsection \<open>send (lines 134-143)\<close>

text \<open>
  \<^verbatim>\<open>setHeader\<close> throws once the header block has been sent and otherwise stores the value
  under the name. \<^verbatim>\<open>end\<close> writes head and body once; on a response that has ended it
  writes nothing.
\<close>

definition setHeader :: "response \<Rightarrow> string \<Rightarrow> hvalue \<Rightarrow> error + response" where
  "setHeader r name v =
     (if headersSent r then Inl ERR_HTTP_HEADERS_SENT
      else Inr (r\<lparr> outHeaders := AList.update name v (outHeaders r) \<rparr>))"

definition response_end :: "response \<Rightarrow> string \<Rightarrow> response" where
  "response_end r d =
     (if writableEnded r then r
      else r\<lparr> headersSent := True, writableEnded := True,
               wire := wire r @ [(statusCode r, outHeaders r, d)] \<rparr>)"

text \<open>
  \<^verbatim>\<open>send\<close> assigns the status first, so a throw of \<^verbatim>\<open>setHeader\<close> leaves the status
  assigned: the result is the exception, if any, and the response as it is afterwards.
\<close>

definition send :: "runtime \<Rightarrow> response \<Rightarrow> nat \<Rightarrow> json \<Rightarrow> error option \<times> response" where
  "send rt r status message =
     (let r0 = r\<lparr> statusCode := status \<rparr>;
          d = JSON_stringify rt message
      in case setHeader r0 ''Content-Type'' (HStr ''application/json; charset=utf-8'') of
           Inl e \<Rightarrow> (Some e, r0)
         | Inr r1 \<Rightarrow>
             (case setHeader r1 ''Content-Length'' (HNum (length d)) of
                Inl e \<Rightarrow> (Some e, r1)
              | Inr r2 \<Rightarrow> (None, response_end r2 d)))"

subsection \<open>The handler's state\<close>

text \<open>
  \<open>req\<close> and \<open>res\<close> are the two objects the handler is called with. \<open>parts\<close> and \<open>size_acc\<close>
  are the local variables \<^verbatim>\<open>parts\<close> and \<^verbatim>\<open>size\<close> of the body reader. \<open>console\<close> is what
  \<^verbatim>\<open>console.error\<close> printed. \<open>entered\<close> and \<open>delivered\<close> only observe the run: the stages
  whose code was entered, in order, and the number of \<^verbatim>\<open>data\<close> events a listener handled.
\<close>

datatype stage = Authenticate | Headers | Body | Listen | Prepare | Validate | Respond

record hstate =
  req :: request
  res :: response
  parts :: "string list"
  size_acc :: nat
  console :: "error list"
  entered :: "stage list"
  delivered :: nat

definition enter :: "stage \<Rightarrow> hstate \<Rightarrow> hstate" where
  "enter g s = s\<lparr> entered := entered s @ [g] \<rparr>"

text \<open>
  How a piece of the \<^verbatim>\<open>try\<close> block ends: it falls through to the next statement, it
  returns from the handler, it throws to the enclosing \<^verbatim>\<open>catch\<close>, or an exception leaves a
  stream listener. A listener runs from the stream's \<^verbatim>\<open>emit\<close>, outside the promise
  executor and outside every \<^verbatim>\<open>try\<close> of the handler: its exception reaches no
  \<^verbatim>\<open>catch\<close> of this file, the promise the handler awaits is never settled, and the handler
  does not resume.
\<close>

datatype flow = Continue | Return | Throw error | Uncaught error

definition and_then ::
  "(hstate \<Rightarrow> flow \<times> hstate) \<Rightarrow> (hstate \<Rightarrow> flow \<times> hstate) \<Rightarrow> hstate \<Rightarrow> flow \<times> hstate" where
  "and_then f g s = (case f s of (Continue, s1) \<Rightarrow> g s1 | other \<Rightarrow> other)"

text \<open>\<^verbatim>\<open>return send(response, status, { failure: msg })\<close>.\<close>

definition reply :: "runtime \<Rightarrow> nat \<Rightarrow> string \<Rightarrow> hstate \<Rightarrow> flow \<times> hstate" where
  "reply rt status msg s =
     (case send rt (res s) status (failure msg) of
        (None, r) \<Rightarrow> (Return, s\<lparr> res := r \<rparr>)
      | (Some e, r) \<Rightarrow> (Throw e, s\<lparr> res := r \<rparr>))"

definition header :: "request \<Rightarrow> string \<Rightarrow> string option" where
  "header r name = map_of (request.headers r) name"

subsection \<open>Authentication (lines 43-55)\<close>

text \<open>
  \<^verbatim>\<open>request.headers['cookie'] || ''\<close> is the header, or the empty string when it is absent;
  \<^verbatim>\<open>!cookies.token\<close> holds for a missing cookie and for an empty one.
\<close>

definition authenticate_stage ::
  "runtime \<Rightarrow> services \<Rightarrow> route \<Rightarrow> hstate \<Rightarrow> flow \<times> hstate" where
  "authenticate_stage rt sv rte s =
     (if authenticate rte then
        let s1 = enter Authenticate s;
            cookies = cookie_parse rt (case header (req s1) ''cookie'' of None \<Rightarrow> [] | Some c \<Rightarrow> c)
        in case map_of cookies ''token'' of
             None \<Rightarrow> reply rt 403 ''Forbidden.'' s1
           | Some token \<Rightarrow>
               if token = [] then reply rt 403 ''Forbidden.'' s1
               else (case jwt_verify rt token (jwtSecret sv) of
                       None \<Rightarrow> reply rt 403 ''Forbidden.'' s1
                     | Some claims \<Rightarrow> (Continue, s1\<lparr> req := (req s1)\<lparr> session := Some claims \<rparr> \<rparr>))
      else (Continue, s))"

subsection \<open>Response headers of the route (lines 58-62)\<close>

text \<open>
  \<^verbatim>\<open>for (const key of route.headers)\<close> asks the value for its iterator. \<^verbatim>\<open>route.headers\<close>
  is an object literal mapping names to values (section 3 of the specification, and the CORS
  example of docs/index.md); an object literal has no iterator, so the statement throws a
  TypeError before the loop body runs, whatever the mapping holds.
\<close>

definition headers_stage :: "route \<Rightarrow> hstate \<Rightarrow> flow \<times> hstate" where
  "headers_stage rte s =
     (case route.headers rte of
        None \<Rightarrow> (Continue, s)
      | Some hs \<Rightarrow> (Throw (TypeError ''route.headers is not iterable''), enter Headers s))"

subsection \<open>The body (lines 65-103)\<close>

text \<open>
  The regular expression \<^verbatim>\<open>/^application\/json(?:\s*)(?:[;]|$)/\<close>. A header value is a
  string of bytes (Node decodes headers as latin1), where \<^verbatim>\<open>\s\<close> matches the codes below.
  \<^verbatim>\<open>test\<close> converts its argument to a string, so an absent header is tested as the
  string \<^verbatim>\<open>undefined\<close>.
\<close>

definition is_space :: "char \<Rightarrow> bool" where
  "is_space c = (of_char c \<in> {9, 10, 11, 12, 13, 32, 160 :: nat})"

definition regex_test :: "string \<Rightarrow> bool" where
  "regex_test v =
     (take 16 v = ''application/json'' \<and>
      (case dropWhile is_space (drop 16 v) of [] \<Rightarrow> True | c # cs \<Rightarrow> c = CHR '';''))"

definition to_String :: "string option \<Rightarrow> string" where
  "to_String v = (case v of None \<Rightarrow> ''undefined'' | Some w \<Rightarrow> w)"

text \<open>
  \<^verbatim>\<open>route.limit || 1048576\<close>: an absent limit and the limit 0 are both falsy. The limit
  is a number of bytes, held as a natural; so is the count \<^verbatim>\<open>size\<close>, which is exact as long
  as fewer than \<open>2 ^ 53\<close> bytes arrive.
\<close>

definition effective_limit :: "route \<Rightarrow> nat" where
  "effective_limit rte =
     (case limit rte of None \<Rightarrow> 1048576 | Some n \<Rightarrow> if n = 0 then 1048576 else n)"

text \<open>
  \<^verbatim>\<open>request.headers['content-length'] > limit\<close> converts the header to a number, that
  is, to an IEEE 754 double. Node's HTTP parser accepts a request only if its Content-Length
  is a string of decimal digits, so the number is the decimal value of the digits rounded to
  the nearest double, ties to the even significand: a natural below \<open>2 ^ 53\<close> is itself, a
  larger one keeps its 53 leading bits, and what rounds to \<open>2 ^ 1024\<close> or more is Infinity.
  An absent header converts to NaN, and NaN is greater than nothing.
\<close>

datatype number = NaN | Num nat | PosInfinity

fun bit_length :: "nat \<Rightarrow> nat" where
  "bit_length n = (if n = 0 then 0 else Suc (bit_length (n div 2)))"

declare bit_length.simps [simp del]

definition to_double :: "nat \<Rightarrow> number" where
  "to_double n =
     (if n < 2 ^ 53 then Num n
      else
        let e = bit_length n - 53;
            q = n div 2 ^ e;
            r = n mod 2 ^ e;
            h = 2 ^ (e - 1);
            m = (if r < h then q else if h < r then q + 1 else if even q then q else q + 1);
            v = m * 2 ^ e
        in if v < 2 ^ 1024 then Num v else PosInfinity)"

definition is_digit :: "char \<Rightarrow> bool" where
  "is_digit c = (48 \<le> (of_char c :: nat) \<and> (of_char c :: nat) \<le> 57)"

definition decimal :: "string \<Rightarrow> nat" where
  "decimal v = foldl (\<lambda>n c. 10 * n + (of_char c - 48)) 0 v"

definition to_Number :: "string option \<Rightarrow> number" where
  "to_Number v =
     (case v of None \<Rightarrow> NaN
      | Some w \<Rightarrow> if list_all is_digit w then to_double (decimal w) else NaN)"

definition exceeds :: "number \<Rightarrow> nat \<Rightarrow> bool" where
  "exceeds x n = (case x of NaN \<Rightarrow> False | Num m \<Rightarrow> n < m | PosInfinity \<Rightarrow> True)"

definition too_large :: string where
  "too_large = ''Content was too large for this request.''"

text \<open>
  The \<^verbatim>\<open>data\<close> listener, run over the chunks in order. Over the limit it sends 413 and
  destroys the request with an Error; the stream then emits \<^verbatim>\<open>error\<close> and nothing else,
  and the \<^verbatim>\<open>error\<close> listener rejects the promise. A throw of \<^verbatim>\<open>send\<close> here would leave
  the listener.
\<close>

fun on_data :: "runtime \<Rightarrow> nat \<Rightarrow> string list \<Rightarrow> hstate \<Rightarrow> flow \<times> hstate" where
  "on_data rt lim [] s = (Continue, s)"
| "on_data rt lim (part # rest) s =
     (let s1 = s\<lparr> size_acc := size_acc s + length part, delivered := delivered s + 1 \<rparr>
      in if lim < size_acc s1 then
           (case send rt (res s1) 413 (failure too_large) of
              (Some e, r) \<Rightarrow> (Uncaught e, s1\<lparr> res := r \<rparr>)
            | (None, r) \<Rightarrow>
                (Throw (Error too_large), s1\<lparr> res := r, req := (req s1)\<lparr> destroyed := True \<rparr> \<rparr>))
         else on_data rt lim rest (s1\<lparr> parts := parts s1 @ [part] \<rparr>))"

text \<open>
  The \<^verbatim>\<open>end\<close> listener: \<^verbatim>\<open>resolve(JSON.parse(Buffer.concat(parts)))\<close>. The argument is
  evaluated first and inside the listener, so a SyntaxError leaves the listener.
\<close>

definition on_end :: "runtime \<Rightarrow> hstate \<Rightarrow> flow \<times> hstate" where
  "on_end rt s =
     (case JSON_parse rt (concat (parts s)) of
        None \<Rightarrow> (Uncaught SyntaxError, s)
      | Some v \<Rightarrow> (Continue, s\<lparr> req := (req s)\<lparr> body := Some v \<rparr> \<rparr>))"

text \<open>\<^verbatim>\<open>request.body = await new Promise(...)\<close>.\<close>

definition read_body :: "runtime \<Rightarrow> nat \<Rightarrow> stream \<Rightarrow> hstate \<Rightarrow> flow \<times> hstate" where
  "read_body rt lim st s =
     (case on_data rt lim (chunks st) (enter Listen s) of
        (Continue, s1) \<Rightarrow>
          (case ending st of
             End \<Rightarrow> on_end rt s1
           | Errored msg \<Rightarrow> (Throw (Error msg), s1))
      | other \<Rightarrow> other)"

definition body_stage :: "runtime \<Rightarrow> route \<Rightarrow> stream \<Rightarrow> hstate \<Rightarrow> flow \<times> hstate" where
  "body_stage rt rte st s =
     (if json rte \<or> (accept rte = None \<and> method (req s) \<noteq> ''GET'') then
        let s1 = enter Body s
        in if regex_test (to_String (header (req s1) ''content-type'')) then
             reply rt 406 ''Content-Type is not application/json.'' s1
           else
             let s2 = s1\<lparr> parts := [], size_acc := 0 \<rparr>;
                 lim = effective_limit rte;
                 inner = (if exceeds (to_Number (header (req s2) ''content-length'')) lim
                          then reply rt 413 too_large s2
                          else read_body rt lim st s2)
             in (case inner of
                   (Throw e, s3) \<Rightarrow> reply rt 400 ''Message could not parse as JSON.'' s3
                 | other \<Rightarrow> other)
      else (Continue, s))"

subsection \<open>Prepare, validate, respond (lines 105-123)\<close>

fun run_actions :: "runtime \<Rightarrow> action list \<Rightarrow> hstate \<Rightarrow> error option \<times> hstate" where
  "run_actions rt [] s = (None, s)"
| "run_actions rt (Send status msg # rest) s =
     (case send rt (res s) status msg of
        (Some e, r) \<Rightarrow> (Some e, s\<lparr> res := r \<rparr>)
      | (None, r) \<Rightarrow> run_actions rt rest (s\<lparr> res := r \<rparr>))"
| "run_actions rt (Mutate f # rest) s = run_actions rt rest (s\<lparr> req := f (req s) \<rparr>)"
| "run_actions rt (Raise msg # rest) s = (Some (Error msg), s)"

definition call :: "runtime \<Rightarrow> services \<Rightarrow> delegate \<Rightarrow> hstate \<Rightarrow> error option \<times> hstate" where
  "call rt sv d s = run_actions rt (d (req s) sv) s"

definition prepare_stage ::
  "runtime \<Rightarrow> services \<Rightarrow> route \<Rightarrow> hstate \<Rightarrow> flow \<times> hstate" where
  "prepare_stage rt sv rte s =
     (case prepare rte of
        None \<Rightarrow> (Continue, s)
      | Some d \<Rightarrow>
          (case call rt sv d (enter Prepare s) of
             (Some e, s1) \<Rightarrow> (Throw e, s1)
           | (None, s1) \<Rightarrow>
               if \<not> writableEnded (res s1) then (Return, s1) else (Continue, s1)))"

text \<open>Lines 17-22: one compiled validator per endpoint of the route table.\<close>

definition validators :: "runtime \<Rightarrow> (string \<rightharpoonup> route) \<Rightarrow> string \<rightharpoonup> (data \<Rightarrow> bool)" where
  "validators rt routes endpoint =
     (case routes endpoint of
        None \<Rightarrow> None
      | Some rte \<Rightarrow> Some (ajv_compile rt (validate rte)))"

definition validate_stage ::
  "runtime \<Rightarrow> (string \<rightharpoonup> route) \<Rightarrow> string \<Rightarrow> hstate \<Rightarrow> flow \<times> hstate" where
  "validate_stage rt routes endpoint s =
     (let s1 = enter Validate s;
          d = \<lparr> data_query = query (req s1), data_headers = request.headers (req s1),
                data_body = body (req s1) \<rparr>
      in case validators rt routes endpoint of
           None \<Rightarrow> (Throw (TypeError ''validators[endpoint] is not a function''), s1)
         | Some v \<Rightarrow> if \<not> v d then reply rt 400 ''Message is invalid.'' s1 else (Continue, s1))"

definition respond_stage ::
  "runtime \<Rightarrow> services \<Rightarrow> route \<Rightarrow> hstate \<Rightarrow> flow \<times> hstate" where
  "respond_stage rt sv rte s =
     (case respond rte of
        None \<Rightarrow> (Throw (TypeError ''route.respond is not a function''), s)
      | Some d \<Rightarrow>
          (case call rt sv d (enter Respond s) of
             (Some e, s1) \<Rightarrow> (Throw e, s1)
           | (None, s1) \<Rightarrow> (Return, s1)))"

subsection \<open>The handler (lines 25-131)\<close>

definition try_block ::
  "runtime \<Rightarrow> (string \<rightharpoonup> route) \<Rightarrow> services \<Rightarrow> stream \<Rightarrow> hstate \<Rightarrow> flow \<times> hstate" where
  "try_block rt routes sv st s0 =
     (let pq = url_parse rt (url (req s0));
          s = s0\<lparr> req := (req s0)\<lparr> pathname := Some (fst pq), query := Some (snd pq) \<rparr> \<rparr>;
          endpoint = method (req s) @ '' '' @ fst pq
      in case routes endpoint of
           None \<Rightarrow> reply rt 404 ''Not found.'' s
         | Some rte \<Rightarrow>
             if respond rte = None then reply rt 404 ''Not found.'' s
             else and_then (authenticate_stage rt sv rte)
                 (and_then (headers_stage rte)
                 (and_then (body_stage rt rte st)
                 (and_then (prepare_stage rt sv rte)
                 (and_then (validate_stage rt routes endpoint)
                      (respond_stage rt sv rte))))) s)"

text \<open>
  How a call of the handler ends: its promise resolves, it rejects (the \<^verbatim>\<open>send\<close> of the
  outer \<^verbatim>\<open>catch\<close> threw), or it stays pending for ever after an exception left a stream
  listener (Node then raises \<^verbatim>\<open>uncaughtException\<close>).
\<close>

datatype outcome = Returned | Rejected error | Escaped error

definition createApiServer ::
  "runtime \<Rightarrow> (string \<rightharpoonup> route) \<Rightarrow> services \<Rightarrow> request \<Rightarrow> response \<Rightarrow> stream
     \<Rightarrow> outcome \<times> hstate" where
  "createApiServer rt routes sv request response st =
     (let s0 = \<lparr> req = request, res = response, parts = [], size_acc = 0, console = [],
                 entered = [], delivered = 0 \<rparr>
      in case try_block rt routes sv st s0 of
           (Throw e, s) \<Rightarrow>
             (let s1 = s\<lparr> console := console s @ [e] \<rparr>
              in if \<not> writableEnded (res s1) then
                   (case send rt (res s1) 500 (failure ''Internal server error.'') of
                      (None, r) \<Rightarrow> (Returned, s1\<lparr> res := r \<rparr>)
                    | (Some e2, r) \<Rightarrow> (Rejected e2, s1\<lparr> res := r \<rparr>))
                 else (Returned, s1))
         | (Uncaught e, s) \<Rightarrow> (Escaped e, s)
         | (Continue, s) \<Rightarrow> (Returned, s)
         | (Return, s) \<Rightarrow> (Returned, s))"

section \<open>Notions used to state the properties\<close>

text \<open>
  A response on which nothing has been written yet, as Node hands it to the handler.
\<close>

definition unsent :: "response \<Rightarrow> bool" where
  "unsent r = (\<not> headersSent r \<and> \<not> writableEnded r \<and> wire r = [])"

text \<open>
  The header block and the response object after one successful \<^verbatim>\<open>send\<close> on an unsent
  response.
\<close>

definition out_headers :: "runtime \<Rightarrow> response \<Rightarrow> json \<Rightarrow> (string \<times> hvalue) list" where
  "out_headers rt r message =
     AList.update ''Content-Length'' (HNum (length (JSON_stringify rt message)))
       (AList.update ''Content-Type'' (HStr ''application/json; charset=utf-8'') (outHeaders r))"

definition sent :: "runtime \<Rightarrow> response \<Rightarrow> nat \<Rightarrow> json \<Rightarrow> response" where
  "sent rt r status message =
     r\<lparr> statusCode := status, outHeaders := out_headers rt r message,
        headersSent := True, writableEnded := True,
        wire := [(status, out_headers rt r message, JSON_stringify rt message)] \<rparr>"

text \<open>The endpoint key of a request, and the two ways of not being registered.\<close>

definition endpoint_of :: "runtime \<Rightarrow> request \<Rightarrow> string" where
  "endpoint_of rt request = method request @ '' '' @ fst (url_parse rt (url request))"

definition unregistered :: "runtime \<Rightarrow> (string \<rightharpoonup> route) \<Rightarrow> request \<Rightarrow> bool" where
  "unregistered rt routes request =
     (case routes (endpoint_of rt request) of None \<Rightarrow> True | Some rte \<Rightarrow> respond rte = None)"

definition resolves :: "runtime \<Rightarrow> (string \<rightharpoonup> route) \<Rightarrow> request \<Rightarrow> route \<Rightarrow> bool" where
  "resolves rt routes request rte =
     (routes (endpoint_of rt request) = Some rte \<and> respond rte \<noteq> None)"

text \<open>
  The \<^verbatim>\<open>token\<close> cookie of a request, and the failures of authentication: the cookie is
  missing, it is empty, or \<^verbatim>\<open>jwt.verify\<close> throws (bad signature, expired, malformed).
\<close>

definition token_of :: "runtime \<Rightarrow> request \<Rightarrow> string option" where
  "token_of rt request =
     map_of (cookie_parse rt (case header request ''cookie'' of None \<Rightarrow> [] | Some c \<Rightarrow> c)) ''token''"

definition auth_fails :: "runtime \<Rightarrow> services \<Rightarrow> request \<Rightarrow> bool" where
  "auth_fails rt sv request =
     (case token_of rt request of
        None \<Rightarrow> True
      | Some t \<Rightarrow> t = [] \<or> jwt_verify rt t (jwtSecret sv) = None)"

text \<open>
  The requests for which the body stage is entered: the route resolves, authentication (if
  required) succeeds, the route declares no \<^verbatim>\<open>headers\<close>, and the route asks for the
  body. Those that get as far as the size checks are the ones for which, moreover, the test
  of line 66 is false.
\<close>

definition enters_body ::
  "runtime \<Rightarrow> (string \<rightharpoonup> route) \<Rightarrow> services \<Rightarrow> request \<Rightarrow> route \<Rightarrow> bool" where
  "enters_body rt routes sv request rte =
     (resolves rt routes request rte
      \<and> (if authenticate rte then \<not> auth_fails rt sv request else True)
      \<and> route.headers rte = None
      \<and> (json rte \<or> (accept rte = None \<and> method request \<noteq> ''GET'')))"

definition reaches_body ::
  "runtime \<Rightarrow> (string \<rightharpoonup> route) \<Rightarrow> services \<Rightarrow> request \<Rightarrow> route \<Rightarrow> bool" where
  "reaches_body rt routes sv request rte =
     (enters_body rt routes sv request rte
      \<and> \<not> regex_test (to_String (header request ''content-type'')))"

text \<open>The state in which the body stage then starts.\<close>

definition at_body :: "runtime \<Rightarrow> services \<Rightarrow> request \<Rightarrow> response \<Rightarrow> route \<Rightarrow> hstate" where
  "at_body rt sv request response rte =
     \<lparr> req = request\<lparr> pathname := Some (fst (url_parse rt (url request))),
                       query := Some (snd (url_parse rt (url request))),
                       session := (if authenticate rte
                                   then (case token_of rt request of
                                           None \<Rightarrow> None
                                         | Some t \<Rightarrow> jwt_verify rt t (jwtSecret sv))
                                   else session request) \<rparr>,
       res = response, parts = [], size_acc = 0, console = [],
       entered = (if authenticate rte then [Authenticate] else []), delivered = 0 \<rparr>"

text \<open>The number of bytes of a list of chunks.\<close>

definition total_size :: "string list \<Rightarrow> nat" where
  "total_size cs = sum_list (map length cs)"

text \<open>
  The flags and the wire of a response object agree: the header block has been sent exactly
  when the response has ended, and then, and only then, one response is on the wire.
\<close>

definition consistent :: "response \<Rightarrow> bool" where
  "consistent r =
     (headersSent r = writableEnded r \<and> length (wire r) = (if writableEnded r then 1 else 0))"

section \<open>A concrete server\<close>

text \<open>
  An instance of the libraries, a route table and requests on which the handler can be
  evaluated. The table has the routes of the documentation (a plain route, a route with CORS
  headers, a route with \<^verbatim>\<open>authenticate\<close>, routes with \<^verbatim>\<open>prepare\<close>) and routes with a
  body limit.
\<close>

definition quote :: "string \<Rightarrow> string" where
  "quote v = CHR 0x22 # v @ [CHR 0x22]"

fun stringify0 :: "json \<Rightarrow> string" where
  "stringify0 (JObj [(k, JStr v)]) = ''{'' @ quote k @ '':'' @ quote v @ ''}''"
| "stringify0 j = ''null''"

text \<open>
  The stand-in for ajv reads the \<^verbatim>\<open>type\<close> keyword of the schemas of \<^verbatim>\<open>query\<close> and
  \<^verbatim>\<open>body\<close>: a property that is present must have the declared type, and an absent
  \<^verbatim>\<open>validate\<close> accepts every object.
\<close>

fun has_type :: "string \<Rightarrow> json \<Rightarrow> bool" where
  "has_type t (JObj kvs) = (t = ''object'')"
| "has_type t (JArr vs) = (t = ''array'')"
| "has_type t (JStr v) = (t = ''string'')"
| "has_type t (JNum i) = (t = ''number'')"
| "has_type t (JBool b) = (t = ''boolean'')"
| "has_type t JNull = (t = ''null'')"

definition property_ok :: "json option \<Rightarrow> json option \<Rightarrow> bool" where
  "property_ok schema v =
     (case schema of
        Some (JObj kvs) \<Rightarrow>
          (case v of
             None \<Rightarrow> True
           | Some w \<Rightarrow> (case map_of kvs ''type'' of Some (JStr t) \<Rightarrow> has_type t w | _ \<Rightarrow> True))
      | _ \<Rightarrow> True)"

definition ajv0 :: "json option \<Rightarrow> data \<Rightarrow> bool" where
  "ajv0 v d =
     (case v of
        Some (JObj props) \<Rightarrow>
          property_ok (map_of props ''query'') (data_query d)
          \<and> property_ok (map_of props ''body'') (data_body d)
      | _ \<Rightarrow> True)"

definition rt0 :: runtime where
  "rt0 = \<lparr> url_parse = (\<lambda>u. (takeWhile (\<lambda>c. c \<noteq> CHR ''?'') u, JObj [])),
           cookie_parse = (\<lambda>c. if take 6 c = ''token='' then [(''token'', drop 6 c)] else []),
           jwt_verify = (\<lambda>t k. if t = ''good'' \<and> k = ''s3cret''
                                then Some (JObj [(''sub'', JStr ''ann'')]) else None),
           JSON_parse = (\<lambda>v. if v = ''{}'' then Some (JObj [])
                               else if v = ''[1,2,3,4,5]'' then Some (JArr (map JNum [1, 2, 3, 4, 5]))
                               else None),
           JSON_stringify = stringify0,
           ajv_compile = ajv0 \<rparr>"

definition sv0 :: services where
  "sv0 = \<lparr> jwtSecret = ''s3cret'' \<rparr>"

definition respond_ok :: delegate where
  "respond_ok = (\<lambda>rq sv. [Send 200 (JObj [(''success'', JStr ''ok'')])])"

definition plain_route :: route where
  "plain_route = \<lparr> respond = Some respond_ok, authenticate = False, headers = None, json = False,
                   accept = None, limit = None, validate = None, prepare = None \<rparr>"

definition routes0 :: "string \<rightharpoonup> route" where
  "routes0 = map_of
     [(''GET /foo'', plain_route),
      (''GET /cors'', plain_route\<lparr> headers := Some [(''Access-Control-Allow-Origin'', ''*'')] \<rparr>),
      (''GET /important'', plain_route\<lparr> authenticate := True \<rparr>),
      (''POST /echo'', plain_route),
      (''POST /small'', plain_route\<lparr> limit := Some 10 \<rparr>),
      (''POST /zero'', plain_route\<lparr> limit := Some 0 \<rparr>),
      (''POST /page'', plain_route\<lparr>
          validate := Some (JObj [(''body'', JObj [(''type'', JStr ''object'')])]),
          prepare := Some (\<lambda>rq sv. [Send 422 (failure ''Page was not a number.'')]) \<rparr>),
      (''GET /page'', plain_route\<lparr>
          prepare := Some (\<lambda>rq sv. [Mutate (\<lambda>r. r\<lparr> query := Some (JObj [(''page'', JNum 1)]) \<rparr>)]) \<rparr>),
      (''GET /draft'', plain_route\<lparr> respond := None \<rparr>)]"

definition GET :: "string \<Rightarrow> (string \<times> string) list \<Rightarrow> request" where
  "GET u hs = \<lparr> method = ''GET'', url = u, request.headers = hs, pathname = None, query = None,
               session = None, body = None, destroyed = False \<rparr>"

definition POST :: "string \<Rightarrow> (string \<times> string) list \<Rightarrow> request" where
  "POST u hs = (GET u hs)\<lparr> method := ''POST'' \<rparr>"

definition body_of :: "string list \<Rightarrow> stream" where
  "body_of cs = \<lparr> chunks = cs, ending = End \<rparr>"

section \<open>Basic facts\<close>

lemmas model_defs =
  createApiServer_def try_block_def and_then_def authenticate_stage_def headers_stage_def
  body_stage_def read_body_def on_end_def prepare_stage_def validate_stage_def validators_def
  respond_stage_def call_def reply_def send_def setHeader_def response_end_def enter_def
  header_def regex_test_def to_String_def to_Number_def to_double_def exceeds_def
  effective_limit_def is_digit_def decimal_def is_space_def too_large_def failure_def Let_def

lemmas server_defs =
  rt0_def ajv0_def property_ok_def sv0_def respond_ok_def plain_route_def routes0_def GET_def
  POST_def body_of_def quote_def new_response_def

lemmas notion_defs =
  unsent_def out_headers_def sent_def endpoint_of_def unregistered_def resolves_def
  token_of_def auth_fails_def enters_body_def reaches_body_def total_size_def

lemma send_unsent: "unsent r \<Longrightarrow> send rt r status message = (None, sent rt r status message)"
  by (simp add: unsent_def send_def setHeader_def response_end_def sent_def out_headers_def Let_def)

lemma send_headersSent:
  "headersSent r \<Longrightarrow>
   send rt r status message = (Some ERR_HTTP_HEADERS_SENT, r\<lparr> statusCode := status \<rparr>)"
  by (simp add: send_def setHeader_def Let_def)

lemma reply_unsent:
  "unsent (res s) \<Longrightarrow>
   reply rt status msg s = (Return, s\<lparr> res := sent rt (res s) status (failure msg) \<rparr>)"
  by (simp add: reply_def send_unsent)

lemma reply_headersSent:
  "headersSent (res s) \<Longrightarrow>
   reply rt status msg s =
     (Throw ERR_HTTP_HEADERS_SENT, s\<lparr> res := (res s)\<lparr> statusCode := status \<rparr> \<rparr>)"
  by (simp add: reply_def send_headersSent)

lemma sent_flags [simp]:
  "headersSent (sent rt r status m)" "writableEnded (sent rt r status m)"
  "wire (sent rt r status m) = [(status, out_headers rt r m, JSON_stringify rt m)]"
  by (simp_all add: sent_def)

text \<open>
  The conversion of a Content-Length. \<open>2 ^ 53 + 1\<close> lies half way between two doubles and
  converts to \<open>2 ^ 53\<close>; what is \<open>2 ^ 53\<close> or more converts to \<open>2 ^ 53\<close> or more. So against a
  limit below \<open>2 ^ 53\<close> the comparison of line 75 is the comparison of the naturals.
\<close>

lemma bit_length_0: "bit_length 0 = 0"
  by (simp add: bit_length.simps)

lemma bit_length_pos: "0 < n \<Longrightarrow> bit_length n = Suc (bit_length (n div 2))"
  by (subst bit_length.simps) simp

lemma to_Number_half_way:
  "to_Number (Some ''9007199254740993'') = Num 9007199254740992"
  by (simp add: to_Number_def to_double_def is_digit_def decimal_def bit_length_0 bit_length_pos
        Let_def)

lemma bit_length_lower: "0 < n \<Longrightarrow> 2 ^ (bit_length n - 1) \<le> n"
proof (induction n rule: bit_length.induct)
  case (1 n)
  show ?case
  proof (cases "n div 2 = 0")
    case True
    with "1.prems" show ?thesis
      by (simp add: bit_length_pos bit_length_0)
  next
    case False
    then have p: "0 < n div 2" by simp
    with "1.IH" "1.prems" have "2 ^ (bit_length (n div 2) - 1) \<le> n div 2" by simp
    moreover from p have "bit_length (n div 2) = Suc (bit_length (n div 2) - 1)"
      by (simp add: bit_length_pos)
    ultimately have "2 ^ bit_length (n div 2) \<le> 2 * (n div 2)"
      by (metis mult_le_mono2 power_Suc)
    also have "\<dots> \<le> n" by simp
    finally show ?thesis using "1.prems" by (simp add: bit_length_pos)
  qed
qed

lemma bit_length_upper: "n < 2 ^ bit_length n"
proof (induction n rule: bit_length.induct)
  case (1 n)
  show ?case
  proof (cases "n = 0")
    case True
    then show ?thesis by (simp add: bit_length_0)
  next
    case False
    with "1.IH" have "n div 2 < 2 ^ bit_length (n div 2)" by simp
    then have "n < 2 * 2 ^ bit_length (n div 2)" by linarith
    with False show ?thesis by (simp add: bit_length_pos)
  qed
qed

lemma bit_length_53:
  assumes "2 ^ 53 \<le> n"
  shows "53 < bit_length n"
proof (rule ccontr)
  assume "\<not> 53 < bit_length n"
  then have "(2::nat) ^ bit_length n \<le> 2 ^ 53"
    by (intro power_increasing) simp_all
  with bit_length_upper [of n] assms show False by simp
qed

lemma to_double_large:
  assumes "2 ^ 53 \<le> n"
  shows "to_double n = PosInfinity \<or> (\<exists>v. to_double n = Num v \<and> 2 ^ 53 \<le> v)"
proof -
  define e where "e = bit_length n - 53"
  define q where "q = n div 2 ^ e"
  from assms have pos: "0 < n"
    by (metis less_le_trans zero_less_numeral zero_less_power)
  from bit_length_53 [OF assms] have b: "bit_length n - 1 = 52 + e"
    by (simp add: e_def)
  from bit_length_lower [OF pos] b have "2 ^ 52 * 2 ^ e \<le> n"
    by (simp add: power_add)
  then have q: "2 ^ 52 \<le> q"
    unfolding q_def by (simp add: less_eq_div_iff_mult_less_eq)
  have e: "(2::nat) \<le> 2 ^ e"
    using bit_length_53 [OF assms] self_le_power [of "2::nat" e] by (simp add: e_def)
  have m: "2 ^ 53 \<le> m * 2 ^ e" if "q \<le> m" for m
  proof -
    from that q have "2 ^ 52 \<le> m" by simp
    then have "2 ^ 52 * 2 \<le> m * 2 ^ e"
      using e by (rule mult_le_mono)
    then show ?thesis by simp
  qed
  from assms have "\<not> n < 2 ^ 53" by simp
  then show ?thesis
    using m [of q] m [of "q + 1"]
    by (auto simp add: to_double_def Let_def e_def [symmetric] q_def [symmetric])
qed

lemma exceeds_exact:
  assumes "lim < 2 ^ 53"
  shows "exceeds (to_double n) lim = (lim < n)"
proof (cases "n < 2 ^ 53")
  case True
  then show ?thesis by (simp add: to_double_def exceeds_def)
next
  case False
  then have n: "2 ^ 53 \<le> n" by simp
  with assms have "lim < n" by simp
  with to_double_large [OF n] assms show ?thesis
    by (auto simp add: exceeds_def)
qed

text \<open>
  A request that reaches the body stage arrives there in the state \<open>at_body\<close>, and the rest
  of the \<^verbatim>\<open>try\<close> block is what remains to run.
\<close>

lemma try_block_body:
  assumes "enters_body rt routes sv request rte"
  shows "try_block rt routes sv st
           \<lparr> req = request, res = response, parts = [], size_acc = 0, console = [],
             entered = [], delivered = 0 \<rparr>
         = and_then (body_stage rt rte st)
             (and_then (prepare_stage rt sv rte)
             (and_then (validate_stage rt routes (endpoint_of rt request)) (respond_stage rt sv rte)))
             (at_body rt sv request response rte)"
  using assms
  by (auto simp add: try_block_def enters_body_def resolves_def endpoint_of_def Let_def
        and_then_def authenticate_stage_def headers_stage_def auth_fails_def token_of_def
        header_def enter_def at_body_def split: option.splits if_splits)

section \<open>Route resolution\<close>

text \<open>
  Claim C9. A request whose endpoint key is not in the route table, or whose route has no
  \<^verbatim>\<open>respond\<close> delegate, is answered with exactly one response, status 404 and body
  \<^verbatim>\<open>{ failure: 'Not found.' }\<close>; no later stage is entered, no body event is handled, and
  neither a session nor a body is attached to the request.
\<close>

theorem not_found:
  fixes st :: stream and sv :: services
  assumes "unsent response" and "unregistered rt routes request"
  defines "s \<equiv> snd (createApiServer rt routes sv request response st)"
  shows "fst (createApiServer rt routes sv request response st) = Returned
    \<and> wire (res s) = [(404, out_headers rt response (failure ''Not found.''),
                        JSON_stringify rt (failure ''Not found.''))]
    \<and> entered s = [] \<and> delivered s = 0
    \<and> session (req s) = session request \<and> body (req s) = body request"
  using assms(1,2) unfolding s_def
  by (auto simp add: createApiServer_def try_block_def unregistered_def endpoint_of_def Let_def
        reply_unsent split: option.splits)

theorem not_found_witness:
  "unsent new_response
   \<and> unregistered rt0 routes0 (GET ''/bar'' [])
   \<and> unregistered rt0 routes0 (GET ''/draft'' [])
   \<and> map fst (wire (res (snd (createApiServer rt0 routes0 sv0 (GET ''/bar'' []) new_response
        (body_of []))))) = [404]
   \<and> map fst (wire (res (snd (createApiServer rt0 routes0 sv0 (GET ''/draft'' []) new_response
        (body_of []))))) = [404]
   \<and> entered (snd (createApiServer rt0 routes0 sv0 (GET ''/draft'' []) new_response
        (body_of []))) = []"
proof -
  have u: "unsent new_response"
    by (simp add: unsent_def new_response_def)
  have a: "unregistered rt0 routes0 (GET ''/bar'' [])"
    by (simp add: notion_defs server_defs)
  have b: "unregistered rt0 routes0 (GET ''/draft'' [])"
    by (simp add: notion_defs server_defs)
  show ?thesis
    using u a b not_found [OF u a, of sv0 "body_of []"] not_found [OF u b, of sv0 "body_of []"]
    by simp
qed

section \<open>Authentication\<close>

text \<open>
  A run that fails authentication, in full: the handler returns with the 403 sent, having
  entered the authentication stage only.
\<close>

lemma forbidden_run:
  assumes "unsent response"
    and "resolves rt routes request rte" and "authenticate rte" and "auth_fails rt sv request"
  shows "createApiServer rt routes sv request response st =
      (Returned,
       \<lparr> req = request\<lparr> pathname := Some (fst (url_parse rt (url request))),
                         query := Some (snd (url_parse rt (url request))) \<rparr>,
         res = sent rt response 403 (failure ''Forbidden.''),
         parts = [], size_acc = 0, console = [], entered = [Authenticate], delivered = 0 \<rparr>)"
  using assms
  by (auto simp add: createApiServer_def try_block_def resolves_def endpoint_of_def Let_def
        and_then_def authenticate_stage_def auth_fails_def token_of_def header_def enter_def
        reply_unsent split: option.splits)

text \<open>
  Claim C6. On a route with \<^verbatim>\<open>authenticate: true\<close>, a request that fails authentication
  (no \<^verbatim>\<open>token\<close> cookie, or a token that \<^verbatim>\<open>jwt.verify\<close> rejects for whatever reason) is
  answered with one response, status 403 and body \<^verbatim>\<open>{ failure: 'Forbidden.' }\<close>; the
  \<^verbatim>\<open>respond\<close> delegate is not called and no session is attached; and two such requests,
  whatever their routes and whatever made each fail, leave the response object in the same
  state, so what is written is the same byte for byte.
\<close>

theorem forbidden_uniform:
  fixes st st' :: stream
  assumes "unsent response"
    and "resolves rt routes request rte" and "authenticate rte" and "auth_fails rt sv request"
    and "resolves rt routes request' rte'" and "authenticate rte'" and "auth_fails rt sv request'"
  defines "s \<equiv> snd (createApiServer rt routes sv request response st)"
    and "s' \<equiv> snd (createApiServer rt routes sv request' response st')"
  shows "fst (createApiServer rt routes sv request response st) = Returned
    \<and> wire (res s) = [(403, out_headers rt response (failure ''Forbidden.''),
                        JSON_stringify rt (failure ''Forbidden.''))]
    \<and> Respond \<notin> set (entered s)
    \<and> session (req s) = session request
    \<and> res s' = res s"
  unfolding s_def s'_def
    forbidden_run [OF assms(1,2,3,4)] forbidden_run [OF assms(1,5,6,7)]
  by simp

theorem forbidden_uniform_witness:
  "unsent new_response
   \<and> resolves rt0 routes0 (GET ''/important'' []) (plain_route\<lparr> authenticate := True \<rparr>)
   \<and> auth_fails rt0 sv0 (GET ''/important'' [])
   \<and> resolves rt0 routes0 (GET ''/important'' [(''cookie'', ''token=expired'')])
        (plain_route\<lparr> authenticate := True \<rparr>)
   \<and> auth_fails rt0 sv0 (GET ''/important'' [(''cookie'', ''token=expired'')])
   \<and> map fst (wire (res (snd (createApiServer rt0 routes0 sv0 (GET ''/important'' [])
        new_response (body_of []))))) = [403]
   \<and> res (snd (createApiServer rt0 routes0 sv0 (GET ''/important'' [(''cookie'', ''token=expired'')])
        new_response (body_of [])))
     = res (snd (createApiServer rt0 routes0 sv0 (GET ''/important'' []) new_response (body_of [])))"
proof -
  let ?rte = "plain_route\<lparr> authenticate := True \<rparr>"
  have u: "unsent new_response"
    by (simp add: unsent_def new_response_def)
  have r1: "resolves rt0 routes0 (GET ''/important'' []) ?rte"
    by (simp add: notion_defs server_defs)
  have f1: "auth_fails rt0 sv0 (GET ''/important'' [])"
    by (simp add: notion_defs server_defs header_def)
  have r2: "resolves rt0 routes0 (GET ''/important'' [(''cookie'', ''token=expired'')]) ?rte"
    by (simp add: notion_defs server_defs)
  have f2: "auth_fails rt0 sv0 (GET ''/important'' [(''cookie'', ''token=expired'')])"
    by (simp add: notion_defs server_defs header_def)
  have a: "authenticate ?rte"
    by simp
  show ?thesis
    using u r1 f1 r2 f2
      forbidden_uniform [OF u r1 a f1 r2 a f2, of "body_of []" "body_of []"]
    by simp
qed

section \<open>Response headers of the route\<close>

text \<open>
  Whatever mapping a route declares as its \<^verbatim>\<open>headers\<close>, a request that gets to line 58
  is answered 500: the TypeError is logged and no later stage is entered.
\<close>

lemma route_headers_500:
  assumes "unsent response" and "resolves rt routes request rte"
    and "if authenticate rte then \<not> auth_fails rt sv request else True"
    and "route.headers rte = Some hs"
  shows "fst (createApiServer rt routes sv request response st) = Returned
    \<and> res (snd (createApiServer rt routes sv request response st))
        = sent rt response 500 (failure ''Internal server error.'')
    \<and> console (snd (createApiServer rt routes sv request response st))
        = [TypeError ''route.headers is not iterable'']
    \<and> entered (snd (createApiServer rt routes sv request response st))
        = (if authenticate rte then [Authenticate] else []) @ [Headers]"
  using assms
  by (auto simp add: createApiServer_def try_block_def resolves_def endpoint_of_def Let_def
        and_then_def authenticate_stage_def headers_stage_def auth_fails_def token_of_def
        header_def enter_def send_unsent unsent_def split: option.splits if_splits)

text \<open>
  Claim C3 says that the pairs of a route's \<^verbatim>\<open>headers\<close> mapping are set on the response
  and that setting them does not end the request with a failure. The handler run on the
  route of the documentation's CORS example: the \<^verbatim>\<open>for ... of\<close> statement throws, the
  outer \<^verbatim>\<open>catch\<close> logs the TypeError and answers 500 with
  \<^verbatim>\<open>{ failure: 'Internal server error.' }\<close>, the header of the route is not on the
  response, and \<^verbatim>\<open>respond\<close> is not called.
\<close>

theorem route_headers_throw:
  "fst (createApiServer rt0 routes0 sv0 (GET ''/cors'' []) new_response (body_of [])) = Returned
   \<and> wire (res (snd (createApiServer rt0 routes0 sv0 (GET ''/cors'' []) new_response (body_of []))))
     = [(500, [(''Content-Type'', HStr ''application/json; charset=utf-8''),
               (''Content-Length'', HNum 36)],
         JSON_stringify rt0 (failure ''Internal server error.''))]
   \<and> console (snd (createApiServer rt0 routes0 sv0 (GET ''/cors'' []) new_response (body_of [])))
     = [TypeError ''route.headers is not iterable'']
   \<and> entered (snd (createApiServer rt0 routes0 sv0 (GET ''/cors'' []) new_response (body_of [])))
     = [Headers]"
  by (simp add: model_defs server_defs)

section \<open>The body\<close>

subsection \<open>The test of the Content-Type\<close>

text \<open>
  A request for which the body stage is entered and whose Content-Type matches the regular
  expression is answered 406, before anything of the body is looked at.
\<close>

lemma matching_content_type_406:
  assumes "unsent response" and "enters_body rt routes sv request rte"
    and "regex_test (to_String (header request ''content-type''))"
  shows "createApiServer rt routes sv request response st =
           (Returned,
            (at_body rt sv request response rte)
              \<lparr> res := sent rt response 406 (failure ''Content-Type is not application/json.''),
                entered := (if authenticate rte then [Authenticate] else []) @ [Body] \<rparr>)"
proof -
  let ?s = "at_body rt sv request response rte"
  have b: "body_stage rt rte st ?s =
      (Return, ?s\<lparr> res := sent rt response 406 (failure ''Content-Type is not application/json.''),
                entered := (if authenticate rte then [Authenticate] else []) @ [Body] \<rparr>)"
    using assms
    by (auto simp add: body_stage_def Let_def enters_body_def at_body_def header_def enter_def
          reply_unsent)
  show ?thesis
    unfolding createApiServer_def Let_def try_block_body [OF assms(2)] and_then_def b
    by simp
qed

text \<open>
  Claim C1 says that a Content-Type which is present and is not application/json is
  answered 406, and that an absent Content-Type is not. The handler run on a route that
  reads the body, with the body \<^verbatim>\<open>{}\<close>: with \<^verbatim>\<open>Content-Type: text/plain\<close> the body is read and
  the route answers 200; with \<^verbatim>\<open>Content-Type: application/json\<close>, and with parameters after
  it, the answer is 406 \<^verbatim>\<open>Content-Type is not application/json.\<close>; without the header the
  route answers 200. The test of line 66 lacks its negation.
\<close>

theorem content_type_test_inverted:
  "map fst (wire (res (snd (createApiServer rt0 routes0 sv0
      (POST ''/echo'' [(''content-type'', ''text/plain'')]) new_response (body_of [''{}''])))))
     = [200]
   \<and> wire (res (snd (createApiServer rt0 routes0 sv0
      (POST ''/echo'' [(''content-type'', ''application/json'')]) new_response (body_of [''{}'']))))
     = [(406, [(''Content-Type'', HStr ''application/json; charset=utf-8''),
               (''Content-Length'', HNum 51)],
         JSON_stringify rt0 (failure ''Content-Type is not application/json.''))]
   \<and> map fst (wire (res (snd (createApiServer rt0 routes0 sv0
      (POST ''/echo'' [(''content-type'', ''application/json; charset=utf-8'')]) new_response
      (body_of [''{}''])))))
     = [406]
   \<and> map fst (wire (res (snd (createApiServer rt0 routes0 sv0
      (POST ''/echo'' []) new_response (body_of [''{}''])))))
     = [200]"
  by (simp add: model_defs server_defs)

subsection \<open>The declared length\<close>

text \<open>The body stage when the declared length is over the limit.\<close>

lemma body_stage_declared:
  assumes "unsent (res s)"
    and "json rte \<or> (accept rte = None \<and> method (req s) \<noteq> ''GET'')"
    and "\<not> regex_test (to_String (header (req s) ''content-type''))"
    and "exceeds (to_Number (header (req s) ''content-length'')) (effective_limit rte)"
  shows "body_stage rt rte st s =
           (Return, s\<lparr> res := sent rt (res s) 413 (failure too_large), parts := [], size_acc := 0,
                        entered := entered s @ [Body] \<rparr>)"
  using assms
  by (auto simp add: body_stage_def Let_def enter_def header_def reply_unsent)

text \<open>
  A request that reaches the size checks (so one whose Content-Type does not match the
  regular expression, on a route without \<^verbatim>\<open>headers\<close>) with a declared Content-Length
  above the effective limit of the route is answered with one response, status 413, before
  the listeners are attached: no \<^verbatim>\<open>data\<close> event is handled, nothing is buffered or
  parsed, the stream is left alone, and the outcome is the same for every body.
\<close>

lemma declared_too_large:
  fixes st st' :: stream
  assumes "unsent response" and "reaches_body rt routes sv request rte"
    and "exceeds (to_Number (header request ''content-length'')) (effective_limit rte)"
  defines "s \<equiv> snd (createApiServer rt routes sv request response st)"
  shows "fst (createApiServer rt routes sv request response st) = Returned
    \<and> wire (res s) = [(413, out_headers rt response (failure too_large),
                        JSON_stringify rt (failure too_large))]
    \<and> entered s = (if authenticate rte then [Authenticate] else []) @ [Body]
    \<and> delivered s = 0 \<and> parts s = []
    \<and> body (req s) = body request \<and> destroyed (req s) = destroyed request
    \<and> createApiServer rt routes sv request response st'
        = createApiServer rt routes sv request response st"
proof -
  let ?s = "at_body rt sv request response rte"
  have b: "body_stage rt rte t ?s =
      (Return, ?s\<lparr> res := sent rt (res ?s) 413 (failure too_large), parts := [], size_acc := 0,
                     entered := entered ?s @ [Body] \<rparr>)" for t
    using assms(1,2,3)
    by (intro body_stage_declared)
       (auto simp add: at_body_def reaches_body_def enters_body_def header_def)
  from assms(2) have e: "enters_body rt routes sv request rte"
    by (simp add: reaches_body_def)
  show ?thesis
    unfolding s_def createApiServer_def Let_def try_block_body [OF e] and_then_def b
    by (simp add: at_body_def)
qed

lemma declared_too_large_example:
  "unsent new_response
   \<and> reaches_body rt0 routes0 sv0 (POST ''/small'' [(''content-length'', ''11'')])
        (plain_route\<lparr> limit := Some 10 \<rparr>)
   \<and> exceeds (to_Number (header (POST ''/small'' [(''content-length'', ''11'')]) ''content-length''))
        (effective_limit (plain_route\<lparr> limit := Some 10 \<rparr>))
   \<and> map fst (wire (res (snd (createApiServer rt0 routes0 sv0
        (POST ''/small'' [(''content-length'', ''11'')]) new_response
        (body_of [''[1,2,'', ''3,4,5]''])))))
     = [413]
   \<and> delivered (snd (createApiServer rt0 routes0 sv0
        (POST ''/small'' [(''content-length'', ''11'')]) new_response
        (body_of [''[1,2,'', ''3,4,5]'']))) = 0"
proof -
  let ?rq = "POST ''/small'' [(''content-length'', ''11'')]"
  let ?rte = "plain_route\<lparr> limit := Some 10 \<rparr>"
  have u: "unsent new_response"
    by (simp add: unsent_def new_response_def)
  have r: "reaches_body rt0 routes0 sv0 ?rq ?rte"
    by (simp add: notion_defs server_defs header_def regex_test_def to_String_def)
  have e: "exceeds (to_Number (header ?rq ''content-length'')) (effective_limit ?rte)"
    by (simp add: server_defs header_def exceeds_def to_Number_def to_double_def
          effective_limit_def is_digit_def decimal_def)
  show ?thesis
    using u r e declared_too_large [OF u r e, of "body_of [''[1,2,'', ''3,4,5]'']"]
    by simp
qed

text \<open>
  Claim C7 says that every request to a route that reads the body, with a declared
  Content-Length above the effective limit, is answered 413 before any byte of the body is
  read. The handler run on a route with \<^verbatim>\<open>limit: 10\<close> and a request that declares
  \<^verbatim>\<open>Content-Type: application/json\<close> and \<^verbatim>\<open>Content-Length: 11\<close>: the length exceeds the
  limit, the inverted test of line 66 answers 406 before the check of line 75 is reached,
  and no 413 is written.
\<close>

theorem declared_json_answered_406:
  "exceeds (to_Number (header (POST ''/small'' [(''content-type'', ''application/json''),
        (''content-length'', ''11'')]) ''content-length''))
     (effective_limit (plain_route\<lparr> limit := Some 10 \<rparr>))
   \<and> routes0 ''POST /small'' = Some (plain_route\<lparr> limit := Some 10 \<rparr>)
   \<and> wire (res (snd (createApiServer rt0 routes0 sv0
        (POST ''/small'' [(''content-type'', ''application/json''), (''content-length'', ''11'')])
        new_response (body_of [''[1,2,3,4,5]'']))))
     = [(406, [(''Content-Type'', HStr ''application/json; charset=utf-8''),
               (''Content-Length'', HNum 51)],
         JSON_stringify rt0 (failure ''Content-Type is not application/json.''))]
   \<and> entered (snd (createApiServer rt0 routes0 sv0
        (POST ''/small'' [(''content-type'', ''application/json''), (''content-length'', ''11'')])
        new_response (body_of [''[1,2,3,4,5]''])))
     = [Body]"
  by (simp add: model_defs server_defs)

subsection \<open>The streamed length\<close>

text \<open>
  The \<^verbatim>\<open>data\<close> listener on a body that is larger than the limit: it stops at the first
  chunk that takes the count over the limit, having buffered the chunks before it.
\<close>

lemma on_data_over:
  assumes "unsent (res s)" and "size_acc s \<le> lim" and "lim < size_acc s + total_size cs"
  shows "\<exists>k<length cs.
           on_data rt lim cs s =
             (Throw (Error too_large),
              s\<lparr> size_acc := size_acc s + total_size (take (Suc k) cs),
                 delivered := delivered s + Suc k,
                 parts := parts s @ take k cs,
                 res := sent rt (res s) 413 (failure too_large),
                 req := (req s)\<lparr> destroyed := True \<rparr> \<rparr>)
           \<and> size_acc s + total_size (take k cs) \<le> lim
           \<and> lim < size_acc s + total_size (take (Suc k) cs)"
  using assms
proof (induction cs arbitrary: s)
  case Nil
  then show ?case by (simp add: total_size_def)
next
  case (Cons c cs)
  show ?case
  proof (cases "lim < size_acc s + length c")
    case True
    with Cons.prems show ?thesis
      by (intro exI [of _ 0]) (simp add: total_size_def Let_def send_unsent)
  next
    case False
    let ?s = "s\<lparr> size_acc := size_acc s + length c, delivered := delivered s + 1,
                  parts := parts s @ [c] \<rparr>"
    from False Cons.prems
    have "unsent (res ?s)" "size_acc ?s \<le> lim" "lim < size_acc ?s + total_size cs"
      by (simp_all add: total_size_def)
    from Cons.IH [OF this] obtain k where k: "k < length cs"
      "on_data rt lim cs ?s =
             (Throw (Error too_large),
              ?s\<lparr> size_acc := size_acc ?s + total_size (take (Suc k) cs),
                 delivered := delivered ?s + Suc k,
                 parts := parts ?s @ take k cs,
                 res := sent rt (res ?s) 413 (failure too_large),
                 req := (req ?s)\<lparr> destroyed := True \<rparr> \<rparr>)"
      "size_acc ?s + total_size (take k cs) \<le> lim"
      "lim < size_acc ?s + total_size (take (Suc k) cs)"
      by blast
    with False show ?thesis
      by (intro exI [of _ "Suc k"]) (simp add: total_size_def Let_def add.assoc)
  qed
qed

text \<open>
  The body stage on such a body. The rejected promise is caught by the inner \<^verbatim>\<open>catch\<close>,
  whose \<^verbatim>\<open>send\<close> of the 400 throws because the 413 has been sent.
\<close>

lemma body_stage_streamed:
  assumes "unsent (res s)"
    and "json rte \<or> (accept rte = None \<and> method (req s) \<noteq> ''GET'')"
    and "\<not> regex_test (to_String (header (req s) ''content-type''))"
    and "\<not> exceeds (to_Number (header (req s) ''content-length'')) (effective_limit rte)"
    and "effective_limit rte < total_size (chunks st)"
  shows "\<exists>k<length (chunks st).
           body_stage rt rte st s =
             (Throw ERR_HTTP_HEADERS_SENT,
              s\<lparr> size_acc := total_size (take (Suc k) (chunks st)),
                 delivered := delivered s + Suc k,
                 parts := take k (chunks st),
                 entered := entered s @ [Body, Listen],
                 res := (sent rt (res s) 413 (failure too_large))\<lparr> statusCode := 400 \<rparr>,
                 req := (req s)\<lparr> destroyed := True \<rparr> \<rparr>)
           \<and> total_size (take k (chunks st)) \<le> effective_limit rte
           \<and> effective_limit rte < total_size (take (Suc k) (chunks st))"
proof -
  let ?s = "enter Listen ((enter Body s)\<lparr> parts := [], size_acc := 0 \<rparr>)"
  have "unsent (res ?s)" "size_acc ?s \<le> effective_limit rte"
       "effective_limit rte < size_acc ?s + total_size (chunks st)"
    using assms by (simp_all add: enter_def)
  from on_data_over [OF this, of rt] obtain k where k: "k < length (chunks st)"
    "on_data rt (effective_limit rte) (chunks st) ?s =
             (Throw (Error too_large),
              ?s\<lparr> size_acc := size_acc ?s + total_size (take (Suc k) (chunks st)),
                 delivered := delivered ?s + Suc k,
                 parts := parts ?s @ take k (chunks st),
                 res := sent rt (res ?s) 413 (failure too_large),
                 req := (req ?s)\<lparr> destroyed := True \<rparr> \<rparr>)"
    "size_acc ?s + total_size (take k (chunks st)) \<le> effective_limit rte"
    "effective_limit rte < size_acc ?s + total_size (take (Suc k) (chunks st))"
    by blast
  from assms(2,3,4) k show ?thesis
    by (intro exI [of _ k])
       (simp add: body_stage_def Let_def read_body_def header_def enter_def reply_headersSent)
qed

text \<open>
  A request that reaches the size checks (so one whose Content-Type does not match the
  regular expression, on a route without \<^verbatim>\<open>headers\<close>), whose Content-Length is absent or
  within the effective limit, and whose streamed bytes exceed the limit: there is a first
  chunk, at index \<open>k\<close>, that takes the count over the limit; the handler has handled exactly
  the chunks up to it and buffered exactly the \<open>k\<close> chunks before it; one response is
  written, with status 413; the request stream is destroyed; no body is parsed and no later
  stage is entered.
\<close>

lemma streamed_too_large:
  fixes st :: stream
  assumes "unsent response" and "reaches_body rt routes sv request rte"
    and "\<not> exceeds (to_Number (header request ''content-length'')) (effective_limit rte)"
    and "effective_limit rte < total_size (chunks st)"
  defines "s \<equiv> snd (createApiServer rt routes sv request response st)"
  shows "wire (res s) = [(413, out_headers rt response (failure too_large),
                          JSON_stringify rt (failure too_large))]
    \<and> destroyed (req s)
    \<and> (\<exists>k<length (chunks st).
          total_size (take k (chunks st)) \<le> effective_limit rte
        \<and> effective_limit rte < total_size (take (Suc k) (chunks st))
        \<and> delivered s = Suc k \<and> parts s = take k (chunks st))
    \<and> body (req s) = body request
    \<and> entered s = (if authenticate rte then [Authenticate] else []) @ [Body, Listen]"
proof -
  let ?s = "at_body rt sv request response rte"
  have "unsent (res ?s)"
    "json rte \<or> (accept rte = None \<and> method (req ?s) \<noteq> ''GET'')"
    "\<not> regex_test (to_String (header (req ?s) ''content-type''))"
    "\<not> exceeds (to_Number (header (req ?s) ''content-length'')) (effective_limit rte)"
    using assms(1,2,3) by (auto simp add: at_body_def reaches_body_def enters_body_def header_def)
  from body_stage_streamed [OF this assms(4), of rt] obtain k where k: "k < length (chunks st)"
    "body_stage rt rte st ?s =
             (Throw ERR_HTTP_HEADERS_SENT,
              ?s\<lparr> size_acc := total_size (take (Suc k) (chunks st)),
                 delivered := delivered ?s + Suc k,
                 parts := take k (chunks st),
                 entered := entered ?s @ [Body, Listen],
                 res := (sent rt (res ?s) 413 (failure too_large))\<lparr> statusCode := 400 \<rparr>,
                 req := (req ?s)\<lparr> destroyed := True \<rparr> \<rparr>)"
    "total_size (take k (chunks st)) \<le> effective_limit rte"
    "effective_limit rte < total_size (take (Suc k) (chunks st))"
    by blast
  from assms(2) have e: "enters_body rt routes sv request rte"
    by (simp add: reaches_body_def)
  have run: "createApiServer rt routes sv request response st =
      (Returned,
       ?s\<lparr> size_acc := total_size (take (Suc k) (chunks st)),
                 delivered := delivered ?s + Suc k,
                 parts := take k (chunks st),
                 entered := entered ?s @ [Body, Listen],
                 res := (sent rt (res ?s) 413 (failure too_large))\<lparr> statusCode := 400 \<rparr>,
                 req := (req ?s)\<lparr> destroyed := True \<rparr>,
                 console := [ERR_HTTP_HEADERS_SENT] \<rparr>)"
    unfolding createApiServer_def Let_def try_block_body [OF e] and_then_def k(2)
    by (simp add: at_body_def)
  show ?thesis
    unfolding s_def run using k(1,3,4)
    by (auto simp add: at_body_def)
qed

lemma streamed_too_large_example:
  "unsent new_response
   \<and> reaches_body rt0 routes0 sv0 (POST ''/small'' []) (plain_route\<lparr> limit := Some 10 \<rparr>)
   \<and> \<not> exceeds (to_Number (header (POST ''/small'' []) ''content-length''))
        (effective_limit (plain_route\<lparr> limit := Some 10 \<rparr>))
   \<and> effective_limit (plain_route\<lparr> limit := Some 10 \<rparr>)
        < total_size (chunks (body_of [''[1,2,'', ''3,4,5]'']))
   \<and> map fst (wire (res (snd (createApiServer rt0 routes0 sv0 (POST ''/small'' []) new_response
        (body_of [''[1,2,'', ''3,4,5]''])))))
     = [413]
   \<and> destroyed (req (snd (createApiServer rt0 routes0 sv0 (POST ''/small'' []) new_response
        (body_of [''[1,2,'', ''3,4,5]'']))))"
proof -
  let ?rq = "POST ''/small'' []"
  let ?rte = "plain_route\<lparr> limit := Some 10 \<rparr>"
  let ?st = "body_of [''[1,2,'', ''3,4,5]'']"
  have u: "unsent new_response"
    by (simp add: unsent_def new_response_def)
  have r: "reaches_body rt0 routes0 sv0 ?rq ?rte"
    by (simp add: notion_defs server_defs header_def regex_test_def to_String_def)
  have e: "\<not> exceeds (to_Number (header ?rq ''content-length'')) (effective_limit ?rte)"
    by (simp add: server_defs header_def exceeds_def to_Number_def)
  have t: "effective_limit ?rte < total_size (chunks ?st)"
    by (simp add: server_defs effective_limit_def total_size_def)
  show ?thesis
    using u r e t streamed_too_large [OF u r e t]
    by simp
qed

text \<open>
  Claim C4 says that every request to a route that reads the body, whose streamed bytes
  exceed the effective limit, is answered 413 at the first chunk over the limit, with the
  stream destroyed. The handler run on a route with \<^verbatim>\<open>limit: 10\<close> and a request that
  declares \<^verbatim>\<open>Content-Type: application/json\<close>, no Content-Length, and streams 11 bytes in
  two chunks: the inverted test of line 66 answers 406, no listener is attached, no chunk
  is handled, the stream is not destroyed, and no 413 is written.
\<close>

theorem streamed_json_answered_406:
  "effective_limit (plain_route\<lparr> limit := Some 10 \<rparr>)
     < total_size (chunks (body_of [''[1,2,'', ''3,4,5]'']))
   \<and> routes0 ''POST /small'' = Some (plain_route\<lparr> limit := Some 10 \<rparr>)
   \<and> createApiServer rt0 routes0 sv0 (POST ''/small'' [(''content-type'', ''application/json'')])
        new_response (body_of [''[1,2,'', ''3,4,5]''])
     = (Returned,
        \<lparr> req = (POST ''/small'' [(''content-type'', ''application/json'')])
                  \<lparr> pathname := Some ''/small'', query := Some (JObj []) \<rparr>,
          res = sent rt0 new_response 406 (failure ''Content-Type is not application/json.''),
          parts = [], size_acc = 0, console = [], entered = [Body], delivered = 0 \<rparr>)
   \<and> \<not> destroyed (req (snd (createApiServer rt0 routes0 sv0
        (POST ''/small'' [(''content-type'', ''application/json'')])
        new_response (body_of [''[1,2,'', ''3,4,5]'']))))
   \<and> map fst (wire (res (snd (createApiServer rt0 routes0 sv0
        (POST ''/small'' [(''content-type'', ''application/json'')])
        new_response (body_of [''[1,2,'', ''3,4,5]''])))))
     = [406]"
  by (simp add: model_defs server_defs effective_limit_def total_size_def sent_def out_headers_def)

subsection \<open>The effective limit\<close>

text \<open>
  The limit of a route is read in the body stage only, and only through \<open>effective_limit\<close>.
\<close>

lemma body_stage_limit:
  "effective_limit rte' = effective_limit rte \<Longrightarrow> json rte' = json rte \<Longrightarrow>
   accept rte' = accept rte \<Longrightarrow> body_stage rt rte' st = body_stage rt rte st"
  by (rule ext) (simp add: body_stage_def Let_def)

lemma stages_ignore_limit:
  "authenticate_stage rt sv (rte\<lparr> limit := a \<rparr>) = authenticate_stage rt sv rte"
  "headers_stage (rte\<lparr> limit := a \<rparr>) = headers_stage rte"
  "prepare_stage rt sv (rte\<lparr> limit := a \<rparr>) = prepare_stage rt sv rte"
  "respond_stage rt sv (rte\<lparr> limit := a \<rparr>) = respond_stage rt sv rte"
  "validate_stage rt (routes(ep \<mapsto> rte\<lparr> limit := a \<rparr>)) e
     = validate_stage rt (routes(ep \<mapsto> rte)) e"
  by (rule ext, simp add: authenticate_stage_def headers_stage_def prepare_stage_def
        respond_stage_def validate_stage_def validators_def)+

lemma try_block_limit:
  "effective_limit (rte\<lparr> limit := a \<rparr>) = effective_limit (rte\<lparr> limit := b \<rparr>) \<Longrightarrow>
   try_block rt (routes(ep \<mapsto> rte\<lparr> limit := a \<rparr>)) sv st s
     = try_block rt (routes(ep \<mapsto> rte\<lparr> limit := b \<rparr>)) sv st s"
  by (simp add: try_block_def Let_def stages_ignore_limit
        body_stage_limit [of "rte\<lparr> limit := a \<rparr>" "rte\<lparr> limit := b \<rparr>"]
      cong: option.case_cong if_cong)

text \<open>
  Claim C10. A route whose \<^verbatim>\<open>limit\<close> is 0 has the effective limit 1048576, and on every
  request the handler does exactly what it does when the route declares the limit 1048576,
  and what it does when the route declares no limit: both size checks compare with the
  default.
\<close>

theorem zero_limit_is_default:
  "effective_limit (rte\<lparr> limit := Some 0 \<rparr>) = 1048576
   \<and> createApiServer rt (routes(ep \<mapsto> rte\<lparr> limit := Some 0 \<rparr>)) sv request response st
       = createApiServer rt (routes(ep \<mapsto> rte\<lparr> limit := Some 1048576 \<rparr>)) sv request response st
   \<and> createApiServer rt (routes(ep \<mapsto> rte\<lparr> limit := Some 0 \<rparr>)) sv request response st
       = createApiServer rt (routes(ep \<mapsto> rte\<lparr> limit := None \<rparr>)) sv request response st"
proof -
  have a: "effective_limit (rte\<lparr> limit := Some 0 \<rparr>) = effective_limit (rte\<lparr> limit := Some 1048576 \<rparr>)"
    by (simp add: effective_limit_def)
  have b: "effective_limit (rte\<lparr> limit := Some 0 \<rparr>) = effective_limit (rte\<lparr> limit := None \<rparr>)"
    by (simp add: effective_limit_def)
  have c: "createApiServer rt (routes(ep \<mapsto> rte\<lparr> limit := Some 0 \<rparr>)) sv request response st
       = createApiServer rt (routes(ep \<mapsto> rte\<lparr> limit := Some 1048576 \<rparr>)) sv request response st"
    by (simp add: createApiServer_def try_block_limit [OF a])
  have d: "createApiServer rt (routes(ep \<mapsto> rte\<lparr> limit := Some 0 \<rparr>)) sv request response st
       = createApiServer rt (routes(ep \<mapsto> rte\<lparr> limit := None \<rparr>)) sv request response st"
    by (simp add: createApiServer_def try_block_limit [OF b])
  from c d show ?thesis
    by (simp add: effective_limit_def)
qed

subsection \<open>Parsing\<close>

text \<open>
  The \<^verbatim>\<open>data\<close> listener on a body within the limit buffers every chunk. If the stream
  then ends and the bytes are not JSON, the SyntaxError leaves the \<^verbatim>\<open>end\<close> listener:
  the handler never resumes, and the response is as the handler received it.
\<close>

lemma on_data_within:
  "size_acc s + total_size cs \<le> lim \<Longrightarrow>
   on_data rt lim cs s =
     (Continue, s\<lparr> size_acc := size_acc s + total_size cs,
                   delivered := delivered s + length cs,
                   parts := parts s @ cs \<rparr>)"
proof (induction cs arbitrary: s)
  case Nil
  then show ?case by (simp add: total_size_def)
next
  case (Cons c cs)
  let ?s = "s\<lparr> size_acc := size_acc s + length c, delivered := delivered s + 1,
                parts := parts s @ [c] \<rparr>"
  from Cons.prems have "size_acc ?s + total_size cs \<le> lim"
    by (simp add: total_size_def)
  from Cons.IH [OF this] Cons.prems show ?case
    by (simp add: total_size_def Let_def add.assoc)
qed

lemma unparsable_body_escapes:
  assumes "reaches_body rt routes sv request rte"
    and "\<not> exceeds (to_Number (header request ''content-length'')) (effective_limit rte)"
    and "total_size (chunks st) \<le> effective_limit rte"
    and "ending st = End"
    and "JSON_parse rt (concat (chunks st)) = None"
  shows "createApiServer rt routes sv request response st =
           (Escaped SyntaxError,
            (at_body rt sv request response rte)
              \<lparr> size_acc := total_size (chunks st), delivered := length (chunks st),
                parts := chunks st,
                entered := (if authenticate rte then [Authenticate] else []) @ [Body, Listen] \<rparr>)"
proof -
  let ?s = "at_body rt sv request response rte"
  from assms(1) have e: "enters_body rt routes sv request rte"
    by (simp add: reaches_body_def)
  let ?t = "enter Listen ((enter Body ?s)\<lparr> parts := [], size_acc := 0 \<rparr>)"
  have "size_acc ?t + total_size (chunks st) \<le> effective_limit rte"
    using assms(3) by (simp add: enter_def)
  note d = on_data_within [OF this, of rt]
  have b: "body_stage rt rte st ?s =
      (Uncaught SyntaxError,
       ?s\<lparr> size_acc := total_size (chunks st), delivered := length (chunks st),
           parts := chunks st,
           entered := (if authenticate rte then [Authenticate] else []) @ [Body, Listen] \<rparr>)"
    using assms e d
    by (auto simp add: body_stage_def Let_def read_body_def on_end_def
          reaches_body_def enters_body_def at_body_def header_def enter_def)
  show ?thesis
    unfolding createApiServer_def Let_def try_block_body [OF e] and_then_def b
    by simp
qed

text \<open>
  Claim C2 says that a body which ends and is not valid JSON is answered 400
  \<^verbatim>\<open>Message could not parse as JSON.\<close>, the parse error being caught. The handler run on
  the body \<^verbatim>\<open>{\<close>: \<^verbatim>\<open>JSON.parse\<close> throws inside the \<^verbatim>\<open>end\<close> listener, the SyntaxError leaves
  the listener, nothing is logged by the handler, and no response is written.
\<close>

theorem invalid_json_escapes:
  "JSON_parse rt0 ''{'' = None
   \<and> fst (createApiServer rt0 routes0 sv0 (POST ''/echo'' []) new_response (body_of [''{'']))
     = Escaped SyntaxError
   \<and> wire (res (snd (createApiServer rt0 routes0 sv0 (POST ''/echo'' []) new_response
        (body_of [''{''])))) = []
   \<and> console (snd (createApiServer rt0 routes0 sv0 (POST ''/echo'' []) new_response
        (body_of [''{'']))) = []
   \<and> entered (snd (createApiServer rt0 routes0 sv0 (POST ''/echo'' []) new_response
        (body_of [''{'']))) = [Body, Listen]"
  by (simp add: model_defs server_defs)

section \<open>Prepare and validate\<close>

text \<open>
  The prepare stage of a route that has the delegate goes on to validation only when the
  response has ended, and returns from the handler when the delegate wrote nothing. The
  validation stage on a response that is still unsent answers 400 when the predicate rejects;
  on a response whose headers are sent its \<^verbatim>\<open>send\<close> throws instead.
\<close>

lemma prepare_stage_continues:
  assumes "prepare rte = Some d" and "prepare_stage rt sv rte s = (Continue, s')"
  shows "writableEnded (res s')"
  using assms by (auto simp add: prepare_stage_def split: prod.splits option.splits if_splits)

lemma prepare_stage_silent:
  assumes "prepare rte = Some d" and "call rt sv d (enter Prepare s) = (None, s')"
    and "\<not> writableEnded (res s')"
  shows "prepare_stage rt sv rte s = (Return, s')"
  using assms by (simp add: prepare_stage_def)

lemma validate_stage_unsent:
  assumes "unsent (res s)" and "routes ep = Some rte"
  shows "validate_stage rt routes ep s =
     (if ajv_compile rt (validate rte)
           \<lparr> data_query = query (req s), data_headers = request.headers (req s),
             data_body = body (req s) \<rparr>
      then (Continue, enter Validate s)
      else (Return, (enter Validate s)\<lparr> res := sent rt (res s) 400 (failure ''Message is invalid.'') \<rparr>))"
  using assms by (simp add: validate_stage_def validators_def Let_def enter_def reply_unsent)

lemma validate_stage_ended:
  assumes "headersSent (res s)" and "routes ep = Some rte"
  shows "validate_stage rt routes ep s =
     (if ajv_compile rt (validate rte)
           \<lparr> data_query = query (req s), data_headers = request.headers (req s),
             data_body = body (req s) \<rparr>
      then (Continue, enter Validate s)
      else (Throw ERR_HTTP_HEADERS_SENT,
            (enter Validate s)\<lparr> res := (res s)\<lparr> statusCode := 400 \<rparr> \<rparr>))"
  using assms by (simp add: validate_stage_def validators_def Let_def enter_def reply_headersSent)

text \<open>
  Claim C8 says that a request which reaches validation and is rejected by the predicate is
  answered 400 \<^verbatim>\<open>Message is invalid.\<close>. The handler run on a route with a \<^verbatim>\<open>prepare\<close>
  delegate that answers 422, and a body the route's predicate rejects: validation is
  entered after the delegate has answered, the \<^verbatim>\<open>send\<close> of the 400 throws, and the only
  response is the delegate's. On a route whose \<^verbatim>\<open>prepare\<close> only assigns to the request,
  the handler returns after it: validation and \<^verbatim>\<open>respond\<close> are not entered and nothing is
  written. The test of line 108 is inverted: it returns when the response has not ended.
\<close>

theorem prepare_test_inverted:
  "\<not> ajv_compile rt0 (Some (JObj [(''body'', JObj [(''type'', JStr ''object'')])]))
       \<lparr> data_query = Some (JObj []), data_headers = [],
         data_body = Some (JArr (map JNum [1, 2, 3, 4, 5])) \<rparr>
   \<and> entered (snd (createApiServer rt0 routes0 sv0 (POST ''/page'' []) new_response
        (body_of [''[1,2,3,4,5]''])))
     = [Body, Listen, Prepare, Validate]
   \<and> wire (res (snd (createApiServer rt0 routes0 sv0 (POST ''/page'' []) new_response
        (body_of [''[1,2,3,4,5]'']))))
     = [(422, [(''Content-Type'', HStr ''application/json; charset=utf-8''),
               (''Content-Length'', HNum 36)],
         JSON_stringify rt0 (failure ''Page was not a number.''))]
   \<and> console (snd (createApiServer rt0 routes0 sv0 (POST ''/page'' []) new_response
        (body_of [''[1,2,3,4,5]''])))
     = [ERR_HTTP_HEADERS_SENT]
   \<and> createApiServer rt0 routes0 sv0 (GET ''/page'' []) new_response (body_of [])
     = (Returned,
        \<lparr> req = (GET ''/page'' [])\<lparr> pathname := Some ''/page'',
                                     query := Some (JObj [(''page'', JNum 1)]) \<rparr>,
          res = new_response, parts = [], size_acc = 0, console = [], entered = [Prepare],
          delivered = 0 \<rparr>)"
  by (simp add: model_defs server_defs)

section \<open>One response per request\<close>

text \<open>
  \<^verbatim>\<open>send\<close> keeps the flags and the wire of the response in agreement, and so does every
  stage of the handler. Hence the handler, called with an unsent response, never puts more
  than one response on the wire: a second \<^verbatim>\<open>send\<close> throws before it writes.
\<close>

lemma unsent_consistent: "unsent r \<Longrightarrow> consistent r"
  by (simp add: unsent_def consistent_def)

lemma send_consistent: "consistent r \<Longrightarrow> consistent (snd (send rt r status m))"
  by (auto simp add: consistent_def send_def setHeader_def response_end_def Let_def)

lemma reply_consistent: "consistent (res s) \<Longrightarrow> consistent (res (snd (reply rt status msg s)))"
  using send_consistent [of "res s" rt status "failure msg"]
  by (auto simp add: reply_def split: prod.splits option.splits)

lemma on_data_consistent:
  "consistent (res s) \<Longrightarrow> consistent (res (snd (on_data rt lim cs s)))"
proof (induction cs arbitrary: s)
  case Nil
  then show ?case by simp
next
  case (Cons c cs)
  let ?s = "s\<lparr> size_acc := size_acc s + length c, delivered := delivered s + 1 \<rparr>"
  from Cons.prems have a: "consistent (snd (send rt (res ?s) 413 (failure too_large)))"
    by (intro send_consistent) simp
  from Cons.prems have "consistent (res (?s\<lparr> parts := parts ?s @ [c] \<rparr>))"
    by simp
  from Cons.IH [OF this] a show ?case
    by (auto simp add: Let_def split: prod.splits option.splits)
qed

lemma run_actions_consistent:
  "consistent (res s) \<Longrightarrow> consistent (res (snd (run_actions rt as s)))"
proof (induction as arbitrary: s)
  case Nil
  then show ?case by simp
next
  case (Cons a as)
  show ?case
  proof (cases a)
    case (Send status msg)
    from Cons.prems have c: "consistent (snd (send rt (res s) status msg))"
      by (rule send_consistent)
    show ?thesis
    proof (cases "send rt (res s) status msg")
      case (Pair e r)
      with c have r: "consistent r" by simp
      with Cons.IH [of "s\<lparr> res := r \<rparr>"]
      have "consistent (res (snd (run_actions rt as (s\<lparr> res := r \<rparr>))))" by simp
      with Send Pair r show ?thesis by (cases e) simp_all
    qed
  next
    case (Mutate f)
    with Cons.IH [of "s\<lparr> req := f (req s) \<rparr>"] Cons.prems show ?thesis by simp
  next
    case (Raise m)
    with Cons.prems show ?thesis by simp
  qed
qed

lemma body_stage_consistent:
  "consistent (res s) \<Longrightarrow> consistent (res (snd (body_stage rt rte st s)))"
proof -
  assume c: "consistent (res s)"
  let ?s2 = "(enter Body s)\<lparr> parts := [], size_acc := 0 \<rparr>"
  have c1: "consistent (res (enter Body s))" "consistent (res ?s2)" "consistent (res (enter Listen ?s2))"
    using c by (simp_all add: enter_def)
  have r: "consistent (res (snd (read_body rt lim st ?s2)))" for lim
    using on_data_consistent [OF c1(3), of rt lim "chunks st"]
    by (auto simp add: read_body_def on_end_def split: prod.splits flow.splits ending.splits option.splits)
  have i: "consistent (res (snd (if exceeds x lim then reply rt 413 too_large ?s2
                                  else read_body rt lim st ?s2)))" for x lim
    using r [of lim] reply_consistent [OF c1(2), of rt 413 too_large] by simp
  have k: "consistent (res (snd (case p of (Throw e, s3) \<Rightarrow> reply rt 400 m s3 | other \<Rightarrow> other)))"
    if "consistent (res (snd p))" for p m
    using that reply_consistent [of "snd p" rt 400 m]
    by (cases p) (auto split: flow.splits)
  show ?thesis
    using c reply_consistent [OF c1(1), of rt 406] k [OF i]
    by (simp add: body_stage_def Let_def)
qed

lemma stages_consistent:
  assumes "consistent (res s)"
  shows "consistent (res (snd (authenticate_stage rt sv rte s)))"
    and "consistent (res (snd (headers_stage rte s)))"
    and "consistent (res (snd (prepare_stage rt sv rte s)))"
    and "consistent (res (snd (validate_stage rt routes ep s)))"
    and "consistent (res (snd (respond_stage rt sv rte s)))"
proof -
  have e: "consistent (res (enter g s))" for g
    using assms by (simp add: enter_def)
  show "consistent (res (snd (authenticate_stage rt sv rte s)))"
    using assms reply_consistent [OF e [of Authenticate], of rt 403 "''Forbidden.''"]
    by (auto simp add: authenticate_stage_def Let_def enter_def split: option.splits)
  show "consistent (res (snd (headers_stage rte s)))"
    using assms by (simp add: headers_stage_def enter_def split: option.splits)
  show "consistent (res (snd (prepare_stage rt sv rte s)))"
  proof (cases "prepare rte")
    case None
    with assms show ?thesis by (simp add: prepare_stage_def)
  next
    case (Some d)
    have "consistent (res (snd (call rt sv d (enter Prepare s))))"
      unfolding call_def by (rule run_actions_consistent [OF e])
    with Some show ?thesis
      by (cases "call rt sv d (enter Prepare s)")
         (auto simp add: prepare_stage_def split: option.splits)
  qed
  show "consistent (res (snd (validate_stage rt routes ep s)))"
    using reply_consistent [OF e [of Validate], of rt 400 "''Message is invalid.''"] e [of Validate]
    by (auto simp add: validate_stage_def Let_def split: option.splits)
  show "consistent (res (snd (respond_stage rt sv rte s)))"
  proof (cases "respond rte")
    case None
    with assms show ?thesis by (simp add: respond_stage_def)
  next
    case (Some d)
    have "consistent (res (snd (call rt sv d (enter Respond s))))"
      unfolding call_def by (rule run_actions_consistent [OF e])
    with Some show ?thesis
      by (cases "call rt sv d (enter Respond s)")
         (auto simp add: respond_stage_def split: option.splits)
  qed
qed

lemma and_then_consistent:
  assumes "\<And>s. consistent (res s) \<Longrightarrow> consistent (res (snd (f s)))"
    and "\<And>s. consistent (res s) \<Longrightarrow> consistent (res (snd (g s)))"
    and "consistent (res s)"
  shows "consistent (res (snd (and_then f g s)))"
proof (cases "f s")
  case (Pair a s1)
  with assms(1) [OF assms(3)] have "consistent (res s1)" by simp
  with Pair assms(2) [of s1] show ?thesis
    by (cases a) (simp_all add: and_then_def)
qed

lemma try_block_consistent:
  assumes "consistent (res s)"
  shows "consistent (res (snd (try_block rt routes sv st s)))"
proof -
  let ?s = "s\<lparr> req := (req s)\<lparr> pathname := Some (fst (url_parse rt (url (req s)))),
                                query := Some (snd (url_parse rt (url (req s)))) \<rparr> \<rparr>"
  have c: "consistent (res ?s)" using assms by simp
  have chain: "consistent (res (snd (
        and_then (authenticate_stage rt sv rte)
         (and_then (headers_stage rte)
         (and_then (body_stage rt rte st)
         (and_then (prepare_stage rt sv rte)
         (and_then (validate_stage rt routes ep) (respond_stage rt sv rte))))) ?s)))" for rte ep
    by (intro and_then_consistent stages_consistent body_stage_consistent c)
  show ?thesis
    using reply_consistent [OF c, of rt 404 "''Not found.''"] chain
    by (simp add: try_block_def Let_def split: option.splits)
qed

lemma handler_consistent:
  assumes "consistent response"
  shows "consistent (res (snd (createApiServer rt routes sv request response st)))"
proof -
  let ?s0 = "\<lparr> req = request, res = response, parts = [], size_acc = 0, console = [],
                 entered = [], delivered = 0 \<rparr>"
  have "consistent (res ?s0)" using assms by simp
  from try_block_consistent [OF this, of rt routes sv st]
  have t: "consistent (res (snd (try_block rt routes sv st ?s0)))" .
  show ?thesis
  proof (cases "try_block rt routes sv st ?s0")
    case (Pair a s)
    with t have c: "consistent (res s)" by simp
    from send_consistent [OF c, of rt 500 "failure ''Internal server error.''"]
    have "consistent (snd (send rt (res s) 500 (failure ''Internal server error.'')))" .
    with Pair c show ?thesis
      by (cases a) (auto simp add: createApiServer_def Let_def split: prod.splits option.splits)
  qed
qed

lemma at_most_one_response:
  assumes "unsent response"
  shows "length (wire (res (snd (createApiServer rt routes sv request response st)))) \<le> 1"
  using handler_consistent [OF unsent_consistent [OF assms], of rt routes sv request st]
  by (simp add: consistent_def split: if_splits)

text \<open>
  Claim C5 says that every path writes exactly one response, a delegate that returns
  without writing apart. The handler run on a route that reads the body, with an empty
  body: \<^verbatim>\<open>JSON.parse\<close> of the empty string throws inside the \<^verbatim>\<open>end\<close> listener, the handler
  never resumes, and the request is left without a response, although neither delegate
  of the route was called.
\<close>

theorem empty_body_unanswered:
  "fst (createApiServer rt0 routes0 sv0 (POST ''/echo'' []) new_response (body_of []))
     = Escaped SyntaxError
   \<and> res (snd (createApiServer rt0 routes0 sv0 (POST ''/echo'' []) new_response (body_of [])))
     = new_response
   \<and> wire (res (snd (createApiServer rt0 routes0 sv0 (POST ''/echo'' []) new_response
        (body_of [])))) = []
   \<and> entered (snd (createApiServer rt0 routes0 sv0 (POST ''/echo'' []) new_response
        (body_of []))) = [Body, Listen]"
  by (simp add: model_defs server_defs)

end
